theory Spec2Isabelle
  imports Main "HOL-Library.Word" "HOL-Library.Multiset"
begin

section \<open>The contract PrivateDAOQuadraticVoting\<close>

text \<open>
  The voting ledger of the repository is the Solidity contract
  \<^verbatim>\<open>PrivateDAOQuadraticVoting\<close> (lines 599 to 739 of
  \<^verbatim>\<open>src/frontend/web/src/App.tsx\<close>). Its storage is a record, each public
  function is a HOL function from the storage before the call to either an error or
  the storage after it, and \<^verbatim>\<open>msg.sender\<close> and
  \<^verbatim>\<open>block.timestamp\<close> are explicit arguments.
\<close>

subsection \<open>Value types\<close>

type_synonym uint256 = "256 word"
type_synonym uint32 = "32 word"
type_synonym address = "160 word"
type_synonym bytes32 = "256 word"
type_synonym bytes = "8 word list"

text \<open>
  The reasons a call can revert with. The contract reverts with the strings
  \<^verbatim>\<open>"Voting closed"\<close> (\<open>VotingClosed\<close>),
  \<^verbatim>\<open>"Already voted"\<close> (\<open>AlreadyVoted\<close>),
  \<^verbatim>\<open>"Voting still open"\<close> (\<open>VotingStillOpen\<close>),
  \<^verbatim>\<open>"Insufficient tokens"\<close> and \<^verbatim>\<open>"Insufficient balance"\<close>
  (\<open>InsufficientBalance\<close>), with the arithmetic panic of checked
  \<^verbatim>\<open>uint256\<close> operations (\<open>Overflow\<close>), when
  \<^verbatim>\<open>FHE.checkSignatures\<close> rejects (\<open>InvalidProof\<close>), when
  \<^verbatim>\<open>abi.decode\<close> rejects (\<open>DecodeFailed\<close>) and when the ether
  transfer of a withdrawal fails (\<open>TransferFailed\<close>). The other constructors
  are error kinds of the specification that no path of the contract produces.
\<close>

datatype error =
    ProposalNotFound
  | VotingClosed
  | VotingStillOpen
  | AlreadyVoted
  | InsufficientBalance
  | VoteCountExceedsLimit
  | RequestAlreadyPending
  | UnknownRequest
  | AlreadyFulfilled
  | InvalidProof
  | AlreadyDecrypted
  | Overflow
  | DecodeFailed
  | TransferFailed

subsection \<open>Encrypted integers\<close>

text \<open>
  Modelled from the spec: the library \<^verbatim>\<open>@fhevm/solidity/lib/FHE.sol\<close> that
  the contract imports is not in the repository. A \<^verbatim>\<open>euint32\<close> is "an opaque
  reference to an encrypted unsigned integer" whose homomorphic operations are such
  that "the decrypted result equals the sum of the original plaintext values". The
  handle is modelled by the value it decrypts to, \<open>plain\<close>; the width, 32 bits, is
  the one of the type's name and of the \<^verbatim>\<open>uint32[]\<close> that
  \<^verbatim>\<open>decryptVoteTally\<close> decodes the decrypted values into, so the sum and the
  product are the ones of \<^verbatim>\<open>uint32\<close>. A storage slot never written holds
  the handle of zero, and the 32 bytes of a handle are those of the value it stands
  for.
\<close>

datatype euint32 = Euint32 (plain: uint32)

definition FHE_asEuint32 :: "uint32 \<Rightarrow> euint32" where
  "FHE_asEuint32 v = Euint32 v"

definition FHE_add :: "euint32 \<Rightarrow> euint32 \<Rightarrow> euint32" where
  "FHE_add a b = Euint32 (plain a + plain b)"

definition FHE_mul :: "euint32 \<Rightarrow> euint32 \<Rightarrow> euint32" where
  "FHE_mul a b = Euint32 (plain a * plain b)"

definition FHE_toBytes32 :: "euint32 \<Rightarrow> bytes32" where
  "FHE_toBytes32 a = ucast (plain a)"

text \<open>
  The rest of the library is a parameter of the model: the verification of a
  decryption proof, which sees the requests made so far, the request id, the
  cleartexts and the proof; and the ABI decoder of a \<^verbatim>\<open>uint32[]\<close>.
\<close>

record backend =
  checkSignatures :: "bytes32 list list \<Rightarrow> uint256 \<Rightarrow> bytes \<Rightarrow> bytes \<Rightarrow> bool"
  abi_decode :: "bytes \<Rightarrow> uint32 list option"

subsection \<open>Storage\<close>

record EncryptedProposal =
  proposal_id :: uint256
  encryptedTitle :: euint32
  encryptedDetails :: euint32
  encryptedVoteCount :: euint32
  encryptedCostSum :: euint32
  endTime :: uint256

record MemberVote =
  encryptedVotes :: euint32
  hasVoted :: bool

datatype event =
    ProposalCreated uint256 uint256
  | VoteCast uint256 address
  | VoteTallyDecrypted uint256

text \<open>
  The four state variables of the contract, the log of the events it has emitted,
  and the decryption requests handed to the oracle so far (the oracle is outside
  the contract; the id of a request is its position in this list).
\<close>

record dao =
  proposalCount :: uint256
  encryptedProposals :: "uint256 \<Rightarrow> EncryptedProposal"
  memberVotes :: "uint256 \<Rightarrow> address \<Rightarrow> MemberVote"
  memberTokenBalances :: "address \<Rightarrow> uint256"
  events :: "event list"
  decryptionRequests :: "bytes32 list list"

definition zero_proposal :: EncryptedProposal where
  "zero_proposal =
     \<lparr>proposal_id = 0, encryptedTitle = Euint32 0, encryptedDetails = Euint32 0,
      encryptedVoteCount = Euint32 0, encryptedCostSum = Euint32 0, endTime = 0\<rparr>"

definition zero_vote :: MemberVote where
  "zero_vote = \<lparr>encryptedVotes = Euint32 0, hasVoted = False\<rparr>"

text \<open>The contract right after deployment: every slot is zero.\<close>

definition deployed :: dao where
  "deployed =
     \<lparr>proposalCount = 0, encryptedProposals = (\<lambda>_. zero_proposal),
      memberVotes = (\<lambda>_ _. zero_vote), memberTokenBalances = (\<lambda>_. 0),
      events = [], decryptionRequests = []\<rparr>"

definition VOTING_PERIOD :: uint256 where
  "VOTING_PERIOD = 604800"

definition MAX_VOTES_PER_PROPOSAL :: uint256 where
  "MAX_VOTES_PER_PROPOSAL = 100"

subsection \<open>Checked arithmetic\<close>

text \<open>
  The contract is compiled with \<^verbatim>\<open>pragma solidity ^0.8.24\<close>: \<^verbatim>\<open>+\<close>,
  \<^verbatim>\<open>-\<close> and \<^verbatim>\<open>*\<close> on \<^verbatim>\<open>uint256\<close> revert instead of wrapping.
\<close>

definition checked_add :: "uint256 \<Rightarrow> uint256 \<Rightarrow> error + uint256" where
  "checked_add a b = (if unat a + unat b < 2 ^ 256 then Inr (a + b) else Inl Overflow)"

definition checked_mul :: "uint256 \<Rightarrow> uint256 \<Rightarrow> error + uint256" where
  "checked_mul a b = (if unat a * unat b < 2 ^ 256 then Inr (a * b) else Inl Overflow)"

definition checked_sub :: "uint256 \<Rightarrow> uint256 \<Rightarrow> error + uint256" where
  "checked_sub a b = (if unat b \<le> unat a then Inr (a - b) else Inl Overflow)"

subsection \<open>Modifiers\<close>

definition votingOpen :: "uint256 \<Rightarrow> uint256 \<Rightarrow> dao \<Rightarrow> error + unit" where
  "votingOpen proposalId now s =
     (if now < endTime (encryptedProposals s proposalId) then Inr () else Inl VotingClosed)"

text \<open>Declared by the contract and applied to none of its functions.\<close>

definition sufficientTokens :: "uint256 \<Rightarrow> address \<Rightarrow> dao \<Rightarrow> error + unit" where
  "sufficientTokens voteCount sender s =
     (case checked_mul voteCount voteCount of
        Inl e \<Rightarrow> Inl e
      | Inr cost \<Rightarrow>
          if cost \<le> memberTokenBalances s sender then Inr () else Inl InsufficientBalance)"

subsection \<open>Functions\<close>

definition createEncryptedProposal ::
  "euint32 \<Rightarrow> euint32 \<Rightarrow> uint256 \<Rightarrow> dao \<Rightarrow> error + dao" where
  "createEncryptedProposal title details now s =
     (case checked_add (proposalCount s) 1 of
        Inl e \<Rightarrow> Inl e
      | Inr newId \<Rightarrow>
          (case checked_add now VOTING_PERIOD of
             Inl e \<Rightarrow> Inl e
           | Inr deadline \<Rightarrow>
               Inr (s\<lparr>proposalCount := newId,
                      encryptedProposals := (encryptedProposals s)(newId :=
                        \<lparr>proposal_id = newId, encryptedTitle = title,
                         encryptedDetails = details,
                         encryptedVoteCount = FHE_asEuint32 0,
                         encryptedCostSum = FHE_asEuint32 0,
                         endTime = deadline\<rparr>),
                      events := events s @ [ProposalCreated newId deadline]\<rparr>)))"

definition castEncryptedVote ::
  "uint256 \<Rightarrow> euint32 \<Rightarrow> address \<Rightarrow> uint256 \<Rightarrow> dao \<Rightarrow> error + dao" where
  "castEncryptedVote proposalId encVote sender now s =
     (case votingOpen proposalId now s of
        Inl e \<Rightarrow> Inl e
      | Inr _ \<Rightarrow>
          if hasVoted (memberVotes s proposalId sender) then Inl AlreadyVoted
          else
            let p = encryptedProposals s proposalId;
                tally = FHE_add (encryptedVoteCount p) encVote;
                encryptedCost = FHE_mul encVote encVote;
                cost = FHE_add (encryptedCostSum p) encryptedCost
            in Inr (s\<lparr>memberVotes := (memberVotes s)(proposalId :=
                         (memberVotes s proposalId)(sender :=
                           \<lparr>encryptedVotes = encVote, hasVoted = True\<rparr>)),
                       encryptedProposals := (encryptedProposals s)(proposalId :=
                         p\<lparr>encryptedVoteCount := tally, encryptedCostSum := cost\<rparr>),
                       events := events s @ [VoteCast proposalId sender]\<rparr>))"

text \<open>
  The request id that \<^verbatim>\<open>FHE.requestDecryption\<close> returns is assigned to a local
  variable and not used; the contract writes nothing of its own.
\<close>

definition requestVoteTallyDecryption :: "uint256 \<Rightarrow> uint256 \<Rightarrow> dao \<Rightarrow> error + dao" where
  "requestVoteTallyDecryption proposalId now s =
     (if now < endTime (encryptedProposals s proposalId) then Inl VotingStillOpen
      else
        let ciphertexts =
              [FHE_toBytes32 (encryptedVoteCount (encryptedProposals s proposalId)),
               FHE_toBytes32 (encryptedCostSum (encryptedProposals s proposalId))]
        in Inr (s\<lparr>decryptionRequests := decryptionRequests s @ [ciphertexts]\<rparr>))"

text \<open>
  The decoded results and the proposal id (\<^verbatim>\<open>uint256 proposalId = requestId;
  // Simplified mapping\<close>) are used for the event only: the two assignments that
  would store the results are commented out in the source.
\<close>

definition decryptVoteTally ::
  "backend \<Rightarrow> uint256 \<Rightarrow> bytes \<Rightarrow> bytes \<Rightarrow> dao \<Rightarrow> error + dao" where
  "decryptVoteTally be requestId cleartexts proof s =
     (if \<not> checkSignatures be (decryptionRequests s) requestId cleartexts proof
      then Inl InvalidProof
      else
        (case abi_decode be cleartexts of
           None \<Rightarrow> Inl DecodeFailed
         | Some results \<Rightarrow>
             let proposalId = requestId
             in Inr (s\<lparr>events := events s @ [VoteTallyDecrypted proposalId]\<rparr>)))"

definition depositTokens :: "uint256 \<Rightarrow> address \<Rightarrow> dao \<Rightarrow> error + dao" where
  "depositTokens msg_value sender s =
     (case checked_add (memberTokenBalances s sender) msg_value of
        Inl e \<Rightarrow> Inl e
      | Inr b \<Rightarrow> Inr (s\<lparr>memberTokenBalances := (memberTokenBalances s)(sender := b)\<rparr>))"

text \<open>
  Whether the ether transfer to the sender goes through is decided outside the
  contract; it is the argument \<open>transferred\<close>.
\<close>

definition withdrawTokens :: "uint256 \<Rightarrow> bool \<Rightarrow> address \<Rightarrow> dao \<Rightarrow> error + dao" where
  "withdrawTokens amount transferred sender s =
     (if \<not> amount \<le> memberTokenBalances s sender then Inl InsufficientBalance
      else
        (case checked_sub (memberTokenBalances s sender) amount of
           Inl e \<Rightarrow> Inl e
         | Inr b \<Rightarrow>
             if \<not> transferred then Inl TransferFailed
             else Inr (s\<lparr>memberTokenBalances := (memberTokenBalances s)(sender := b)\<rparr>)))"

subsection \<open>Transactions\<close>

datatype call =
    CreateEncryptedProposal euint32 euint32
  | CastEncryptedVote uint256 euint32
  | RequestVoteTallyDecryption uint256
  | DecryptVoteTally uint256 bytes bytes
  | DepositTokens uint256
  | WithdrawTokens uint256 bool

text \<open>
  A transaction: the sender, the block's timestamp and the call. Only
  \<^verbatim>\<open>depositTokens\<close> is payable, so only its call carries a value.
\<close>

type_synonym tx = "address \<times> uint256 \<times> call"

fun transact :: "backend \<Rightarrow> tx \<Rightarrow> dao \<Rightarrow> error + dao" where
  "transact be (sender, now, CreateEncryptedProposal title details) s =
     createEncryptedProposal title details now s"
| "transact be (sender, now, CastEncryptedVote proposalId encVote) s =
     castEncryptedVote proposalId encVote sender now s"
| "transact be (sender, now, RequestVoteTallyDecryption proposalId) s =
     requestVoteTallyDecryption proposalId now s"
| "transact be (sender, now, DecryptVoteTally requestId cleartexts proof) s =
     decryptVoteTally be requestId cleartexts proof s"
| "transact be (sender, now, DepositTokens msg_value) s =
     depositTokens msg_value sender s"
| "transact be (sender, now, WithdrawTokens amount transferred) s =
     withdrawTokens amount transferred sender s"

text \<open>A transaction that reverts leaves the contract as it was.\<close>

definition apply_tx :: "backend \<Rightarrow> tx \<Rightarrow> dao \<Rightarrow> dao" where
  "apply_tx be t s = (case transact be t s of Inl _ \<Rightarrow> s | Inr s' \<Rightarrow> s')"

fun run :: "backend \<Rightarrow> tx list \<Rightarrow> dao \<Rightarrow> dao" where
  "run be [] s = s"
| "run be (t # ts) s = run be ts (apply_tx be t s)"

text \<open>
  A sequence of votes on one proposal, each by its sender at its timestamp; the
  sequence stops at the first vote that reverts.
\<close>

fun castVotes :: "uint256 \<Rightarrow> (address \<times> uint256 \<times> euint32) list \<Rightarrow> dao \<Rightarrow> error + dao" where
  "castVotes proposalId [] s = Inr s"
| "castVotes proposalId ((sender, now, encVote) # vs) s =
     (case castEncryptedVote proposalId encVote sender now s of
        Inl e \<Rightarrow> Inl e
      | Inr s' \<Rightarrow> castVotes proposalId vs s')"

subsection \<open>Quantities the properties are stated with\<close>

text \<open>The plaintext vote counts of a sequence of votes, and their squares.\<close>

definition voteCounts :: "(address \<times> uint256 \<times> euint32) list \<Rightarrow> nat list" where
  "voteCounts vs = map (\<lambda>(sender, now, encVote). unat (plain encVote)) vs"

definition voteCosts :: "(address \<times> uint256 \<times> euint32) list \<Rightarrow> nat list" where
  "voteCosts vs =
     map (\<lambda>(sender, now, encVote). unat (plain encVote) * unat (plain encVote)) vs"

text \<open>The two checks a vote has to pass, read in the state before the sequence.\<close>

definition can_vote :: "uint256 \<Rightarrow> dao \<Rightarrow> (address \<times> uint256 \<times> euint32) \<Rightarrow> bool" where
  "can_vote p s v \<longleftrightarrow>
     (case v of (sender, now, encVote) \<Rightarrow>
        now < endTime (encryptedProposals s p) \<and> \<not> hasVoted (memberVotes s p sender))"

text \<open>
  An id that was never assigned (0, or an id above \<open>proposalCount\<close>) reads as the
  zero proposal.
\<close>

definition unknown_ids_zero :: "dao \<Rightarrow> bool" where
  "unknown_ids_zero s \<longleftrightarrow>
     (\<forall>q. q = 0 \<or> proposalCount s < q \<longrightarrow> encryptedProposals s q = zero_proposal)"

subsection \<open>Example runs\<close>

text \<open>
  A backend for the examples: it accepts the one-byte proof \<open>[1]\<close> for a request
  that was made, and decodes each byte of the cleartexts as one value.
\<close>

definition test_backend :: backend where
  "test_backend =
     \<lparr>checkSignatures = (\<lambda>requests requestId cleartexts prf.
          unat requestId < length requests \<and> prf = [1]),
      abi_decode = (\<lambda>cleartexts. Some (map ucast cleartexts))\<rparr>"

text \<open>Account 1 creates proposal 1 at time 0; its voting closes at 604800.\<close>

definition open_dao :: dao where
  "open_dao =
     run test_backend [(1, 0, CreateEncryptedProposal (Euint32 11) (Euint32 22))] deployed"

text \<open>Then account 7 casts 3 votes at time 10.\<close>

definition voted_dao :: dao where
  "voted_dao = run test_backend [(7, 10, CastEncryptedVote 1 (Euint32 3))] open_dao"

text \<open>Or account 7 deposits 100 at time 5.\<close>

definition funded_dao :: dao where
  "funded_dao = run test_backend [(7, 5, DepositTokens 100)] open_dao"

text \<open>After the vote, decryption is requested when voting closes.\<close>

definition requested_dao :: dao where
  "requested_dao = run test_backend [(1, 604800, RequestVoteTallyDecryption 1)] voted_dao"

text \<open>After the vote, account 2 creates a second proposal at time 50.\<close>

definition two_proposals :: dao where
  "two_proposals =
     run test_backend [(2, 50, CreateEncryptedProposal (Euint32 33) (Euint32 44))] voted_dao"

text \<open>Accounts 7 and 8 cast 2 and 4 votes on proposal 1.\<close>

definition scenario_B :: "(address \<times> uint256 \<times> euint32) list" where
  "scenario_B = [(7, 10, Euint32 2), (8, 11, Euint32 4)]"

definition scenario_B_dao :: dao where
  "scenario_B_dao = run test_backend
     [(7, 10, CastEncryptedVote 1 (Euint32 2)), (8, 11, CastEncryptedVote 1 (Euint32 4))]
     open_dao"

text \<open>Account 7 casts 65536 votes on proposal 1.\<close>

definition big_vote :: "(address \<times> uint256 \<times> euint32) list" where
  "big_vote = [(7, 10, Euint32 65536)]"

section \<open>Properties\<close>

subsection \<open>Unfolding the functions\<close>

lemmas contract_defs =
  createEncryptedProposal_def castEncryptedVote_def requestVoteTallyDecryption_def
  decryptVoteTally_def depositTokens_def withdrawTokens_def votingOpen_def
  sufficientTokens_def checked_add_def checked_mul_def checked_sub_def
  FHE_add_def FHE_mul_def FHE_asEuint32_def FHE_toBytes32_def
  VOTING_PERIOD_def MAX_VOTES_PER_PROPOSAL_def apply_tx_def Let_def

lemmas example_defs =
  test_backend_def open_dao_def voted_dao_def funded_dao_def requested_dao_def two_proposals_def
  scenario_B_def scenario_B_dao_def big_vote_def
  deployed_def zero_proposal_def zero_vote_def

lemma unat_checked_add:
  "checked_add a b = Inr c \<Longrightarrow> unat c = unat a + unat b"
  by (auto simp: checked_add_def unat_word_ariths split: if_splits)

lemma checked_add_error: "checked_add a b = Inl e \<Longrightarrow> e = Overflow"
  by (auto simp: checked_add_def split: if_splits)

lemma castEncryptedVote_Inr:
  "castEncryptedVote p ev m now s = Inr s' \<longleftrightarrow>
     now < endTime (encryptedProposals s p) \<and> \<not> hasVoted (memberVotes s p m) \<and>
     s' = s\<lparr>memberVotes := (memberVotes s)(p := (memberVotes s p)(m :=
               \<lparr>encryptedVotes = ev, hasVoted = True\<rparr>)),
            encryptedProposals := (encryptedProposals s)(p := (encryptedProposals s p)
              \<lparr>encryptedVoteCount := FHE_add (encryptedVoteCount (encryptedProposals s p)) ev,
               encryptedCostSum := FHE_add (encryptedCostSum (encryptedProposals s p)) (FHE_mul ev ev)\<rparr>),
            events := events s @ [VoteCast p m]\<rparr>"
  by (auto simp: castEncryptedVote_def votingOpen_def Let_def)

lemma castEncryptedVote_Inl:
  "castEncryptedVote p ev m now s = Inl e \<longleftrightarrow>
     e = (if now < endTime (encryptedProposals s p) then AlreadyVoted else VotingClosed) \<and>
     (now < endTime (encryptedProposals s p) \<longrightarrow> hasVoted (memberVotes s p m))"
  by (auto simp: castEncryptedVote_def votingOpen_def Let_def)

lemma createEncryptedProposal_cases:
  "createEncryptedProposal title details now s =
     (if unat (proposalCount s) + 1 < 2 ^ 256 \<and> unat now + unat VOTING_PERIOD < 2 ^ 256
      then Inr (s\<lparr>proposalCount := proposalCount s + 1,
                  encryptedProposals := (encryptedProposals s)(proposalCount s + 1 :=
                    \<lparr>proposal_id = proposalCount s + 1, encryptedTitle = title,
                     encryptedDetails = details, encryptedVoteCount = Euint32 0,
                     encryptedCostSum = Euint32 0, endTime = now + VOTING_PERIOD\<rparr>),
                  events := events s @
                    [ProposalCreated (proposalCount s + 1) (now + VOTING_PERIOD)]\<rparr>)
      else Inl Overflow)"
  by (simp add: createEncryptedProposal_def checked_add_def FHE_asEuint32_def)

lemma createEncryptedProposal_count:
  "createEncryptedProposal title details now s = Inr s' \<Longrightarrow>
     unat (proposalCount s') = unat (proposalCount s) + 1"
  by (auto simp: createEncryptedProposal_cases unat_word_ariths split: if_splits)

lemma createEncryptedProposal_others:
  "createEncryptedProposal title details now s = Inr s' \<Longrightarrow> q \<noteq> proposalCount s' \<Longrightarrow>
     encryptedProposals s' q = encryptedProposals s q"
  by (auto simp: createEncryptedProposal_cases split: if_splits)

subsection \<open>What every transaction preserves\<close>

lemma apply_tx_hasVoted:
  "hasVoted (memberVotes s p m) \<Longrightarrow> hasVoted (memberVotes (apply_tx be t s) p m)"
proof (cases t)
  case (fields sender now c)
  assume h: "hasVoted (memberVotes s p m)"
  show ?thesis
  proof (cases c)
    case (CastEncryptedVote q ev)
    then show ?thesis using h fields
      by (auto simp: apply_tx_def castEncryptedVote_Inr split: sum.splits)
  qed (use h fields in \<open>auto simp: apply_tx_def createEncryptedProposal_def
        requestVoteTallyDecryption_def decryptVoteTally_def depositTokens_def
        withdrawTokens_def Let_def split: sum.splits if_splits option.splits\<close>)
qed

lemma run_hasVoted:
  "hasVoted (memberVotes s p m) \<Longrightarrow> hasVoted (memberVotes (run be txs s) p m)"
  by (induction txs arbitrary: s) (simp_all add: apply_tx_hasVoted)

lemma apply_tx_proposalCount:
  "unat (proposalCount s) \<le> unat (proposalCount (apply_tx be t s))"
proof (cases t)
  case (fields sender now c)
  show ?thesis
  proof (cases c)
    case (CreateEncryptedProposal ti de)
    then show ?thesis using fields
      by (auto simp: apply_tx_def createEncryptedProposal_def
            dest!: unat_checked_add split: sum.splits)
  qed (use fields in \<open>auto simp: apply_tx_def castEncryptedVote_Inr
        requestVoteTallyDecryption_def decryptVoteTally_def depositTokens_def
        withdrawTokens_def Let_def split: sum.splits if_splits option.splits\<close>)
qed

lemma run_proposalCount:
  "unat (proposalCount s) \<le> unat (proposalCount (run be txs s))"
proof (induction txs arbitrary: s)
  case Nil
  show ?case by simp
next
  case (Cons t txs)
  have "unat (proposalCount s) \<le> unat (proposalCount (apply_tx be t s))"
    by (rule apply_tx_proposalCount)
  also have "\<dots> \<le> unat (proposalCount (run be txs (apply_tx be t s)))"
    by (rule Cons.IH)
  finally show ?case by simp
qed

lemma unknown_ids_zeroD:
  "unknown_ids_zero s \<Longrightarrow> q = 0 \<or> proposalCount s < q \<Longrightarrow>
   encryptedProposals s q = zero_proposal"
  unfolding unknown_ids_zero_def by blast

lemma unknown_ids_zero_deployed: "unknown_ids_zero deployed"
  by (simp add: unknown_ids_zero_def deployed_def)

lemma createEncryptedProposal_unknown:
  assumes inv: "unknown_ids_zero s"
    and ok: "createEncryptedProposal ti de now s = Inr s'"
  shows "unknown_ids_zero s'"
proof -
  from ok obtain newId deadline where
    n: "checked_add (proposalCount s) 1 = Inr newId" and
    s': "proposalCount s' = newId"
        "\<And>q. q \<noteq> newId \<Longrightarrow> encryptedProposals s' q = encryptedProposals s q"
    by (auto simp: createEncryptedProposal_def split: sum.splits)
  from n have u: "unat newId = unat (proposalCount s) + 1"
    by (auto dest: unat_checked_add)
  show ?thesis
    unfolding unknown_ids_zero_def
  proof (intro allI impI)
    fix q assume q: "q = 0 \<or> proposalCount s' < q"
    have "q \<noteq> newId"
      using q u s'(1) by (auto simp: word_less_nat_alt)
    moreover have "q = 0 \<or> proposalCount s < q"
      using q u s'(1) by (auto simp: word_less_nat_alt)
    ultimately show "encryptedProposals s' q = zero_proposal"
      using inv s'(2) unfolding unknown_ids_zero_def by metis
  qed
qed

lemma castEncryptedVote_unknown:
  assumes inv: "unknown_ids_zero s"
    and ok: "castEncryptedVote p ev m now s = Inr s'"
  shows "unknown_ids_zero s'"
proof -
  from ok have is_open: "now < endTime (encryptedProposals s p)"
    and cnt: "proposalCount s' = proposalCount s"
    and oth: "\<And>q. q \<noteq> p \<Longrightarrow> encryptedProposals s' q = encryptedProposals s q"
    by (simp_all add: castEncryptedVote_Inr)
  have known: "\<not> (p = 0 \<or> proposalCount s < p)"
  proof
    assume "p = 0 \<or> proposalCount s < p"
    with inv have "encryptedProposals s p = zero_proposal"
      by (rule unknown_ids_zeroD)
    then have "endTime (encryptedProposals s p) = 0"
      by (simp add: zero_proposal_def)
    with is_open show False by simp
  qed
  show ?thesis
    unfolding unknown_ids_zero_def
  proof (intro allI impI)
    fix q assume q: "q = 0 \<or> proposalCount s' < q"
    with known cnt have "q \<noteq> p" by auto
    with q cnt inv oth show "encryptedProposals s' q = zero_proposal"
      unfolding unknown_ids_zero_def by metis
  qed
qed

lemma apply_tx_unknown:
  assumes inv: "unknown_ids_zero s"
  shows "unknown_ids_zero (apply_tx be t s)"
proof (cases t)
  case (fields sender now c)
  show ?thesis
  proof (cases c)
    case (CreateEncryptedProposal ti de)
    then show ?thesis using fields inv
      by (auto simp: apply_tx_def split: sum.splits intro: createEncryptedProposal_unknown)
  next
    case (CastEncryptedVote p ev)
    then show ?thesis using fields inv
      by (auto simp: apply_tx_def split: sum.splits intro: castEncryptedVote_unknown)
  qed (use fields inv in \<open>auto simp: apply_tx_def unknown_ids_zero_def
        requestVoteTallyDecryption_def decryptVoteTally_def depositTokens_def
        withdrawTokens_def Let_def split: sum.splits if_splits option.splits\<close>)
qed

lemma run_unknown: "unknown_ids_zero s \<Longrightarrow> unknown_ids_zero (run be txs s)"
  by (induction txs arbitrary: s) (simp_all add: apply_tx_unknown)

subsection \<open>Sequences of votes\<close>

lemma castVotes_succeeds_iff:
  "(\<exists>s'. castVotes p vs s = Inr s') \<longleftrightarrow>
     list_all (can_vote p s) vs \<and> distinct (map fst vs)"
proof (induction vs arbitrary: s)
  case Nil
  show ?case by simp
next
  case (Cons v vs)
  obtain m now ev where v: "v = (m, now, ev)" by (cases v)
  show ?case
  proof (cases "castEncryptedVote p ev m now s")
    case (Inl e)
    then have "\<not> can_vote p s v"
      by (auto simp: v can_vote_def castEncryptedVote_Inl)
    with Inl show ?thesis by (simp add: v)
  next
    case (Inr s1)
    then have now: "can_vote p s v"
      by (simp add: v can_vote_def castEncryptedVote_Inr)
    have later: "can_vote p s1 w \<longleftrightarrow> can_vote p s w \<and> fst w \<noteq> m" for w
      using Inr by (cases w) (auto simp: can_vote_def castEncryptedVote_Inr)
    have "list_all (can_vote p s1) vs \<longleftrightarrow> list_all (can_vote p s) vs \<and> m \<notin> set (map fst vs)"
      by (induction vs) (auto simp: later)
    with Cons.IH [of s1] Inr now show ?thesis
      by (auto simp: v)
  qed
qed

lemma castVotes_plain:
  "castVotes p vs s = Inr s' \<Longrightarrow>
     plain (encryptedVoteCount (encryptedProposals s' p)) =
       plain (encryptedVoteCount (encryptedProposals s p)) +
       sum_list (map (\<lambda>v. plain (snd (snd v))) vs) \<and>
     plain (encryptedCostSum (encryptedProposals s' p)) =
       plain (encryptedCostSum (encryptedProposals s p)) +
       sum_list (map (\<lambda>v. plain (snd (snd v)) * plain (snd (snd v))) vs)"
proof (induction vs arbitrary: s)
  case Nil
  then show ?case by simp
next
  case (Cons v vs)
  obtain m now ev where v: "v = (m, now, ev)" by (cases v)
  from Cons.prems obtain s1 where
    s1: "castEncryptedVote p ev m now s = Inr s1" and rest: "castVotes p vs s1 = Inr s'"
    by (auto simp: v split: sum.splits)
  from s1 have
    "plain (encryptedVoteCount (encryptedProposals s1 p)) =
       plain (encryptedVoteCount (encryptedProposals s p)) + plain ev"
    "plain (encryptedCostSum (encryptedProposals s1 p)) =
       plain (encryptedCostSum (encryptedProposals s p)) + plain ev * plain ev"
    by (simp_all add: castEncryptedVote_Inr FHE_add_def FHE_mul_def)
  with Cons.IH [OF rest] show ?case
    by (simp add: v add.assoc)
qed

lemma unat_sum_list_mod:
  "unat (sum_list (map f xs) :: uint32) = sum_list (map (\<lambda>x. unat (f x)) xs) mod 2 ^ 32"
proof (induction xs)
  case Nil
  show ?case by simp
next
  case (Cons x xs)
  have "unat (f x + sum_list (map f xs)) =
          (unat (f x) + unat (sum_list (map f xs))) mod 2 ^ 32"
    by (simp add: unat_word_ariths)
  also have "\<dots> = (unat (f x) + sum_list (map (\<lambda>x. unat (f x)) xs)) mod 2 ^ 32"
    by (simp add: Cons.IH mod_add_right_eq)
  finally show ?case by simp
qed

lemma unat_plus_sum_list:
  "unat ((a::uint32) + sum_list (map f xs)) = (unat a + sum_list (map (\<lambda>x. unat (f x)) xs)) mod 2 ^ 32"
proof -
  have "unat (a + sum_list (map f xs)) = (unat a + unat (sum_list (map f xs))) mod 2 ^ 32"
    by (simp add: unat_word_ariths)
  then show ?thesis
    by (simp add: unat_sum_list_mod mod_add_right_eq)
qed

lemma unat_plus_sum_list_sq:
  "unat ((a::uint32) + sum_list (map (\<lambda>x. f x * f x) xs)) =
     (unat a + sum_list (map (\<lambda>x. unat (f x) * unat (f x)) xs)) mod 2 ^ 32"
proof -
  have sq: "sum_list (map (\<lambda>x. unat (f x * f x)) xs) mod 2 ^ 32 =
            sum_list (map (\<lambda>x. unat (f x) * unat (f x)) xs) mod 2 ^ 32"
  proof (induction xs)
    case Nil
    show ?case by simp
  next
    case (Cons x xs)
    have "(unat (f x * f x) + sum_list (map (\<lambda>x. unat (f x * f x)) xs)) mod 2 ^ 32 =
          (unat (f x) * unat (f x) mod 2 ^ 32 +
             sum_list (map (\<lambda>x. unat (f x * f x)) xs) mod 2 ^ 32) mod 2 ^ 32"
      by (simp add: unat_word_ariths mod_add_right_eq)
    also have "\<dots> = (unat (f x) * unat (f x) mod 2 ^ 32 +
             sum_list (map (\<lambda>x. unat (f x) * unat (f x)) xs) mod 2 ^ 32) mod 2 ^ 32"
      by (simp only: Cons.IH)
    also have "\<dots> = (unat (f x) * unat (f x) +
             sum_list (map (\<lambda>x. unat (f x) * unat (f x)) xs)) mod 2 ^ 32"
      by (simp add: mod_add_eq)
    finally show ?case by simp
  qed
  have "unat (a + sum_list (map (\<lambda>x. f x * f x) xs)) =
          (unat a + sum_list (map (\<lambda>x. unat (f x * f x)) xs) mod 2 ^ 32) mod 2 ^ 32"
    using unat_plus_sum_list [of a "\<lambda>x. f x * f x" xs] by (simp add: mod_add_right_eq)
  also have "\<dots> = (unat a + sum_list (map (\<lambda>x. unat (f x) * unat (f x)) xs) mod 2 ^ 32) mod 2 ^ 32"
    by (simp only: sq)
  finally show ?thesis by (simp add: mod_add_right_eq)
qed

lemma sum_list_map_mset:
  fixes f :: "'a \<Rightarrow> 'b::comm_monoid_add"
  assumes "mset xs = mset ys"
  shows "sum_list (map f xs) = sum_list (map f ys)"
proof -
  have "sum_list (map f xs) = sum_mset (image_mset f (mset xs))"
    by (simp flip: sum_mset_sum_list)
  also have "\<dots> = sum_mset (image_mset f (mset ys))"
    by (simp add: assms)
  also have "\<dots> = sum_list (map f ys)"
    by (simp flip: sum_mset_sum_list)
  finally show ?thesis .
qed

subsection \<open>The example runs\<close>

lemma open_dao_proposal:
  "proposalCount open_dao = 1 \<and> endTime (encryptedProposals open_dao 1) = 604800 \<and>
   plain (encryptedVoteCount (encryptedProposals open_dao 1)) = 0 \<and>
   plain (encryptedCostSum (encryptedProposals open_dao 1)) = 0 \<and>
   \<not> hasVoted (memberVotes open_dao 1 7) \<and> memberTokenBalances open_dao 7 = 0"
  by (simp add: contract_defs example_defs)

subsection \<open>Votes and the token balance\<close>

text \<open>
  C1 (the contract does not do this). A vote whose quadratic cost exceeds the
  member's balance should fail with \<open>InsufficientBalance\<close>, and a successful vote
  should decrease the balance by the square of the vote count. In the contract the
  modifier \<open>sufficientTokens\<close> is applied to no function and
  \<open>castEncryptedVote\<close> never reads or writes \<open>memberTokenBalances\<close>: account 7,
  whose balance is 0, casts 3 votes (the modifier would reject them), and after a
  deposit of 100 the same vote leaves the balance at 100, not at 91.
\<close>

theorem vote_ignores_balance:
  "memberTokenBalances open_dao 7 = 0 \<and>
   sufficientTokens 3 7 open_dao = Inl InsufficientBalance \<and>
   castEncryptedVote 1 (Euint32 3) 7 10 open_dao = Inr voted_dao \<and>
   memberTokenBalances voted_dao 7 = 0 \<and>
   memberTokenBalances funded_dao 7 = 100 \<and>
   memberTokenBalances (apply_tx test_backend (7, 10, CastEncryptedVote 1 (Euint32 3)) funded_dao) 7 = 100 \<and>
   hasVoted (memberVotes (apply_tx test_backend (7, 10, CastEncryptedVote 1 (Euint32 3)) funded_dao) 1 7)"
  by (simp add: contract_defs example_defs)

subsection \<open>The tally is the sum of the votes\<close>

text \<open>
  C2 (amended). For every sequence of successful votes by pairwise distinct members on
  one proposal, the decrypted \<open>encryptedVoteCount\<close> is the former count plus the sum
  of the vote counts, and the decrypted \<open>encryptedCostSum\<close> the former sum plus the
  sum of their squares, both modulo \<open>2 ^ 32\<close>; every permutation of the calls
  succeeds as well and ends with the same two accumulators.
\<close>

theorem tally_is_sum_mod:
  assumes ok: "castVotes p vs s = Inr s'"
    and members: "distinct (map fst vs)"
  shows "unat (plain (encryptedVoteCount (encryptedProposals s' p))) =
           (unat (plain (encryptedVoteCount (encryptedProposals s p))) +
            sum_list (voteCounts vs)) mod 2 ^ 32 \<and>
         unat (plain (encryptedCostSum (encryptedProposals s' p))) =
           (unat (plain (encryptedCostSum (encryptedProposals s p))) +
            sum_list (voteCosts vs)) mod 2 ^ 32 \<and>
         (\<forall>vs'. mset vs' = mset vs \<longrightarrow>
            (\<exists>s''. castVotes p vs' s = Inr s'' \<and>
               encryptedVoteCount (encryptedProposals s'' p) =
                 encryptedVoteCount (encryptedProposals s' p) \<and>
               encryptedCostSum (encryptedProposals s'' p) =
                 encryptedCostSum (encryptedProposals s' p)))"
proof (intro conjI allI impI)
  note pl = castVotes_plain [OF ok]
  have c: "voteCounts vs = map (\<lambda>v. unat (plain (snd (snd v)))) vs"
    by (auto simp: voteCounts_def)
  have q: "voteCosts vs = map (\<lambda>v. unat (plain (snd (snd v))) * unat (plain (snd (snd v)))) vs"
    by (auto simp: voteCosts_def)
  show "unat (plain (encryptedVoteCount (encryptedProposals s' p))) =
           (unat (plain (encryptedVoteCount (encryptedProposals s p))) +
            sum_list (voteCounts vs)) mod 2 ^ 32"
    by (simp only: pl c unat_plus_sum_list)
  show "unat (plain (encryptedCostSum (encryptedProposals s' p))) =
           (unat (plain (encryptedCostSum (encryptedProposals s p))) +
            sum_list (voteCosts vs)) mod 2 ^ 32"
    by (simp only: pl q unat_plus_sum_list_sq)
next
  fix vs' assume perm: "mset vs' = mset vs"
  from ok have "list_all (can_vote p s) vs \<and> distinct (map fst vs)"
    using castVotes_succeeds_iff [of p vs s] by blast
  moreover have "set vs' = set vs"
    using perm by (rule mset_eq_setD)
  moreover have "mset (map fst vs') = mset (map fst vs)"
    using perm by simp
  then have "distinct (map fst vs') \<longleftrightarrow> distinct (map fst vs)"
    by (rule mset_eq_imp_distinct_iff)
  ultimately have "list_all (can_vote p s) vs' \<and> distinct (map fst vs')"
    by (simp add: list_all_iff)
  then obtain s'' where ok': "castVotes p vs' s = Inr s''"
    using castVotes_succeeds_iff [of p vs' s] by blast
  have "plain (encryptedVoteCount (encryptedProposals s'' p)) =
        plain (encryptedVoteCount (encryptedProposals s' p))"
    using castVotes_plain [OF ok] castVotes_plain [OF ok']
      sum_list_map_mset [OF perm, of "\<lambda>v. plain (snd (snd v))"] by simp
  moreover have "plain (encryptedCostSum (encryptedProposals s'' p)) =
        plain (encryptedCostSum (encryptedProposals s' p))"
    using castVotes_plain [OF ok] castVotes_plain [OF ok']
      sum_list_map_mset [OF perm, of "\<lambda>v. plain (snd (snd v)) * plain (snd (snd v))"] by simp
  ultimately show "\<exists>s''. castVotes p vs' s = Inr s'' \<and>
       encryptedVoteCount (encryptedProposals s'' p) =
         encryptedVoteCount (encryptedProposals s' p) \<and>
       encryptedCostSum (encryptedProposals s'' p) =
         encryptedCostSum (encryptedProposals s' p)"
    using ok' by (auto simp: euint32.expand)
qed

text \<open>
  Two members cast 2 and 4 votes on a new proposal: the tally is 6 and the cost 20,
  in either order.
\<close>

theorem tally_is_sum_mod_witness:
  "castVotes 1 scenario_B open_dao = Inr scenario_B_dao \<and>
   distinct (map fst scenario_B) \<and>
   unat (plain (encryptedVoteCount (encryptedProposals scenario_B_dao 1))) = 6 \<and>
   unat (plain (encryptedCostSum (encryptedProposals scenario_B_dao 1))) = 20 \<and>
   mset (rev scenario_B) = mset scenario_B \<and>
   encryptedVoteCount (encryptedProposals (projr (castVotes 1 (rev scenario_B) open_dao)) 1) =
     encryptedVoteCount (encryptedProposals scenario_B_dao 1) \<and>
   encryptedCostSum (encryptedProposals (projr (castVotes 1 (rev scenario_B) open_dao)) 1) =
     encryptedCostSum (encryptedProposals scenario_B_dao 1)"
proof -
  have ok: "castVotes 1 scenario_B open_dao = Inr scenario_B_dao"
    by (simp add: scenario_B_def scenario_B_dao_def contract_defs example_defs)
  have d: "distinct (map fst scenario_B)"
    by (simp add: scenario_B_def)
  have p: "mset (rev scenario_B) = mset scenario_B"
    by simp
  have z: "unat (plain (encryptedVoteCount (encryptedProposals open_dao 1))) = 0"
    "unat (plain (encryptedCostSum (encryptedProposals open_dao 1))) = 0"
    by (simp_all add: open_dao_proposal)
  have v: "sum_list (voteCounts scenario_B) = 6" "sum_list (voteCosts scenario_B) = 20"
    by (simp_all add: voteCounts_def voteCosts_def scenario_B_def)
  note t = tally_is_sum_mod [OF ok d]
  from t p obtain s'' where
    "castVotes 1 (rev scenario_B) open_dao = Inr s''"
    "encryptedVoteCount (encryptedProposals s'' 1) =
       encryptedVoteCount (encryptedProposals scenario_B_dao 1)"
    "encryptedCostSum (encryptedProposals s'' 1) =
       encryptedCostSum (encryptedProposals scenario_B_dao 1)"
    by blast
  with t ok d p z v show ?thesis by simp
qed

text \<open>
  Without the modulus the claim fails: one vote of 65536 on a new proposal leaves
  the cost sum at 0, and the square of 65536 is 4294967296.
\<close>

theorem tally_overflow_counterexample:
  "castVotes 1 big_vote open_dao =
     Inr (apply_tx test_backend (7, 10, CastEncryptedVote 1 (Euint32 65536)) open_dao) \<and>
   distinct (map fst big_vote) \<and>
   plain (encryptedCostSum (encryptedProposals open_dao 1)) = 0 \<and>
   sum_list (voteCosts big_vote) = 4294967296 \<and>
   unat (plain (encryptedCostSum (encryptedProposals
     (apply_tx test_backend (7, 10, CastEncryptedVote 1 (Euint32 65536)) open_dao) 1))) \<noteq>
     unat (plain (encryptedCostSum (encryptedProposals open_dao 1))) +
     sum_list (voteCosts big_vote) \<and>
   unat (plain (encryptedCostSum (encryptedProposals
     (apply_tx test_backend (7, 10, CastEncryptedVote 1 (Euint32 65536)) open_dao) 1))) = 0"
  by (simp add: big_vote_def voteCosts_def contract_defs example_defs)

subsection \<open>A member votes once\<close>

text \<open>
  C3 (amended). A vote succeeds only where \<open>hasVoted\<close> is false; after it, and
  after any further transactions, \<open>hasVoted\<close> is true, and every later vote of the
  same member on the same proposal fails, with \<open>AlreadyVoted\<close> while the time is
  before \<open>endTime\<close> and with \<open>VotingClosed\<close> from \<open>endTime\<close> on, and changes
  nothing.
\<close>

theorem hasVoted_never_reset:
  assumes "castEncryptedVote p ev m now s = Inr s1"
  shows "\<not> hasVoted (memberVotes s p m) \<and>
         hasVoted (memberVotes (run be txs s1) p m) \<and>
         castEncryptedVote p ev' m now' (run be txs s1) =
           Inl (if now' < endTime (encryptedProposals (run be txs s1) p)
                then AlreadyVoted else VotingClosed) \<and>
         apply_tx be (m, now', CastEncryptedVote p ev') (run be txs s1) = run be txs s1"
proof -
  from assms have before: "\<not> hasVoted (memberVotes s p m)"
    and "hasVoted (memberVotes s1 p m)"
    by (simp_all add: castEncryptedVote_Inr)
  then have later: "hasVoted (memberVotes (run be txs s1) p m)"
    by (simp add: run_hasVoted)
  then have fails: "castEncryptedVote p ev' m now' (run be txs s1) =
      Inl (if now' < endTime (encryptedProposals (run be txs s1) p)
           then AlreadyVoted else VotingClosed)"
    by (simp add: castEncryptedVote_Inl)
  then have "apply_tx be (m, now', CastEncryptedVote p ev') (run be txs s1) = run be txs s1"
    by (simp add: apply_tx_def)
  with before later fails show ?thesis by blast
qed

text \<open>
  Account 7 has voted on proposal 1; after a deposit and a vote of account 8 its
  second vote at time 20 fails with \<open>AlreadyVoted\<close>.
\<close>

theorem hasVoted_never_reset_witness:
  "castEncryptedVote 1 (Euint32 3) 7 10 open_dao = Inr voted_dao \<and>
   \<not> hasVoted (memberVotes open_dao 1 7) \<and>
   hasVoted (memberVotes (run test_backend [(7, 11, DepositTokens 5), (8, 12, CastEncryptedVote 1 (Euint32 1))] voted_dao) 1 7) \<and>
   castEncryptedVote 1 (Euint32 2) 7 20
     (run test_backend [(7, 11, DepositTokens 5), (8, 12, CastEncryptedVote 1 (Euint32 1))] voted_dao) =
     Inl AlreadyVoted"
proof -
  have h: "castEncryptedVote 1 (Euint32 3) 7 10 open_dao = Inr voted_dao"
    by (simp add: contract_defs example_defs)
  from hasVoted_never_reset [OF h, of test_backend
      "[(7, 11, DepositTokens 5), (8, 12, CastEncryptedVote 1 (Euint32 1))]" "Euint32 2" 20]
  show ?thesis by (simp add: contract_defs example_defs)
qed

text \<open>
  At time 604800, when voting on proposal 1 has closed, the second vote of account 7
  fails with \<open>VotingClosed\<close>, not with \<open>AlreadyVoted\<close>: the modifier
  \<open>votingOpen\<close> runs before the check of \<open>hasVoted\<close>.
\<close>

theorem second_vote_after_close_counterexample:
  "castEncryptedVote 1 (Euint32 3) 7 10 open_dao = Inr voted_dao \<and>
   castEncryptedVote 1 (Euint32 2) 7 604800 voted_dao = Inl VotingClosed \<and>
   castEncryptedVote 1 (Euint32 2) 7 604800 voted_dao \<noteq> Inl AlreadyVoted"
  by (simp add: contract_defs example_defs)

subsection \<open>The decryption callback\<close>

lemma decryptVoteTally_rejected:
  "\<not> checkSignatures be (decryptionRequests s) requestId cleartexts prf \<Longrightarrow>
     decryptVoteTally be requestId cleartexts prf s = Inl InvalidProof"
  by (simp add: decryptVoteTally_def)

lemma decryptVoteTally_accepted:
  assumes "checkSignatures be (decryptionRequests s) requestId cleartexts prf"
    and "abi_decode be cleartexts = Some [voteCount, costSum]"
  shows "decryptVoteTally be requestId cleartexts prf s =
           Inr (s\<lparr>events := events s @ [VoteTallyDecrypted requestId]\<rparr>)"
  using assms by (simp add: decryptVoteTally_def)

text \<open>
  C4 (the contract does not do this). A callback whose proof verifies should record
  the decoded pair as the decrypted tally of the proposal of the request. The contract
  decodes the cleartexts, takes the request id for the proposal id and emits
  \<open>VoteTallyDecrypted\<close>; it has no field for a decrypted tally and keeps no record
  of requests, so the storage is as before. Here the tally (3, 9) of proposal 1 was
  requested; a delivery with a proof that does not verify fails with
  \<open>InvalidProof\<close>, and one with a proof that verifies stores nothing.
\<close>

theorem decryptVoteTally_stores_nothing:
  "decryptVoteTally test_backend 0 [3, 9] [2] requested_dao = Inl InvalidProof \<and>
   checkSignatures test_backend (decryptionRequests requested_dao) 0 [3, 9] [1] \<and>
   abi_decode test_backend [3, 9] = Some [3, 9] \<and>
   decryptVoteTally test_backend 0 [3, 9] [1] requested_dao =
     Inr (requested_dao\<lparr>events := events requested_dao @ [VoteTallyDecrypted 0]\<rparr>) \<and>
   encryptedProposals (apply_tx test_backend (9, 604900, DecryptVoteTally 0 [3, 9] [1])
     requested_dao) = encryptedProposals requested_dao"
proof -
  have c: "checkSignatures test_backend (decryptionRequests requested_dao) 0 [3, 9] [1]"
    by (simp add: contract_defs example_defs)
  have d: "abi_decode test_backend [3, 9] = Some [3, 9]"
    by (simp add: test_backend_def)
  have r: "decryptVoteTally test_backend 0 [3, 9] [2] requested_dao = Inl InvalidProof"
    by (rule decryptVoteTally_rejected) (simp add: test_backend_def)
  from decryptVoteTally_accepted [OF c d] c d r show ?thesis
    by (simp add: apply_tx_def)
qed

subsection \<open>The limit on votes\<close>

text \<open>
  C5 (the contract does not do this). A vote count above
  \<open>MAX_VOTES_PER_PROPOSAL\<close> should be rejected with \<open>VoteCountExceedsLimit\<close>. The
  contract declares the constant, 100, and uses it nowhere: a vote of 101 on
  proposal 1 succeeds and is added to the tally.
\<close>

theorem vote_above_limit:
  "MAX_VOTES_PER_PROPOSAL < 101 \<and>
   castEncryptedVote 1 (Euint32 101) 7 10 open_dao =
     Inr (apply_tx test_backend (7, 10, CastEncryptedVote 1 (Euint32 101)) open_dao) \<and>
   plain (encryptedVoteCount (encryptedProposals
     (apply_tx test_backend (7, 10, CastEncryptedVote 1 (Euint32 101)) open_dao) 1)) = 101 \<and>
   hasVoted (memberVotes (apply_tx test_backend (7, 10, CastEncryptedVote 1 (Euint32 101)) open_dao) 1 7)"
  by (simp add: contract_defs example_defs)

subsection \<open>Requesting the decryption\<close>

text \<open>
  C6 (amended). Before \<open>endTime\<close> a request fails with \<open>VotingStillOpen\<close> and
  changes nothing. From \<open>endTime\<close> on it succeeds: it hands the pair of accumulators
  to the oracle and writes nothing to the contract's storage; a second request for the
  same proposal succeeds in the same way.
\<close>

theorem requestVoteTallyDecryption_gate:
  "(now < endTime (encryptedProposals s p) \<longrightarrow>
      requestVoteTallyDecryption p now s = Inl VotingStillOpen \<and>
      apply_tx be (sender, now, RequestVoteTallyDecryption p) s = s) \<and>
   (endTime (encryptedProposals s p) \<le> now' \<longrightarrow>
      requestVoteTallyDecryption p now' s =
        Inr (s\<lparr>decryptionRequests := decryptionRequests s @
               [[FHE_toBytes32 (encryptedVoteCount (encryptedProposals s p)),
                 FHE_toBytes32 (encryptedCostSum (encryptedProposals s p))]]\<rparr>) \<and>
      requestVoteTallyDecryption p now'
          (s\<lparr>decryptionRequests := decryptionRequests s @
               [[FHE_toBytes32 (encryptedVoteCount (encryptedProposals s p)),
                 FHE_toBytes32 (encryptedCostSum (encryptedProposals s p))]]\<rparr>) =
        Inr (s\<lparr>decryptionRequests := decryptionRequests s @
               [[FHE_toBytes32 (encryptedVoteCount (encryptedProposals s p)),
                 FHE_toBytes32 (encryptedCostSum (encryptedProposals s p))],
                [FHE_toBytes32 (encryptedVoteCount (encryptedProposals s p)),
                 FHE_toBytes32 (encryptedCostSum (encryptedProposals s p))]]\<rparr>))"
  by (auto simp: requestVoteTallyDecryption_def apply_tx_def Let_def)

theorem requestVoteTallyDecryption_gate_witness:
  "(10::uint256) < endTime (encryptedProposals voted_dao 1) \<and>
   requestVoteTallyDecryption 1 10 voted_dao = Inl VotingStillOpen \<and>
   endTime (encryptedProposals voted_dao 1) \<le> 604800 \<and>
   requestVoteTallyDecryption 1 604800 voted_dao =
     Inr (voted_dao\<lparr>decryptionRequests := [[3, 9]]\<rparr>) \<and>
   requestVoteTallyDecryption 1 604800 (voted_dao\<lparr>decryptionRequests := [[3, 9]]\<rparr>) =
     Inr (voted_dao\<lparr>decryptionRequests := [[3, 9], [3, 9]]\<rparr>)"
proof -
  have e: "endTime (encryptedProposals voted_dao 1) = 604800"
    "decryptionRequests voted_dao = []"
    "encryptedVoteCount (encryptedProposals voted_dao 1) = Euint32 3"
    "encryptedCostSum (encryptedProposals voted_dao 1) = Euint32 9"
    by (simp_all add: contract_defs example_defs)
  from requestVoteTallyDecryption_gate [of 10 voted_dao 1 test_backend 1 604800]
  show ?thesis by (simp add: e FHE_toBytes32_def)
qed

text \<open>
  A second request for proposal 1, made while the first one is outstanding, does not
  fail with \<open>RequestAlreadyPending\<close>: it succeeds.
\<close>

theorem second_request_counterexample:
  "requestVoteTallyDecryption 1 604800 voted_dao = Inr requested_dao \<and>
   requestVoteTallyDecryption 1 604800 requested_dao \<noteq> Inl RequestAlreadyPending \<and>
   requestVoteTallyDecryption 1 604800 requested_dao =
     Inr (requested_dao\<lparr>decryptionRequests := [[3, 9], [3, 9]]\<rparr>)"
  by (simp add: contract_defs example_defs)

subsection \<open>Votes on unknown and closed proposals\<close>

text \<open>
  C7 (amended). In every state the contract can reach from deployment, a vote on an
  id that was never assigned, or at a time from \<open>endTime\<close> on, fails with
  \<open>VotingClosed\<close>, and the state, the accumulators included, is as before.
\<close>

theorem castEncryptedVote_closed:
  assumes "s = run be txs deployed"
    and "proposalId = 0 \<or> proposalCount s < proposalId \<or>
         endTime (encryptedProposals s proposalId) \<le> now"
  shows "castEncryptedVote proposalId encVote sender now s = Inl VotingClosed \<and>
         apply_tx be (sender, now, CastEncryptedVote proposalId encVote) s = s"
proof -
  have "unknown_ids_zero s"
    using assms(1) by (simp add: run_unknown unknown_ids_zero_deployed)
  with assms(2) have "endTime (encryptedProposals s proposalId) \<le> now"
    by (auto simp: zero_proposal_def dest: unknown_ids_zeroD)
  then have "castEncryptedVote proposalId encVote sender now s = Inl VotingClosed"
    by (simp add: castEncryptedVote_Inl)
  then show ?thesis by (simp add: apply_tx_def)
qed

theorem castEncryptedVote_closed_witness:
  "open_dao = run test_backend [(1, 0, CreateEncryptedProposal (Euint32 11) (Euint32 22))] deployed \<and>
   proposalCount open_dao < 5 \<and>
   castEncryptedVote 5 (Euint32 1) 7 3 open_dao = Inl VotingClosed \<and>
   endTime (encryptedProposals open_dao 1) \<le> 604800 \<and>
   castEncryptedVote 1 (Euint32 1) 7 604800 open_dao = Inl VotingClosed \<and>
   apply_tx test_backend (7, 604800, CastEncryptedVote 1 (Euint32 1)) open_dao = open_dao"
proof -
  have r: "open_dao = run test_backend [(1, 0, CreateEncryptedProposal (Euint32 11) (Euint32 22))] deployed"
    by (simp add: open_dao_def)
  have u: "proposalCount open_dao < 5"
    and c: "endTime (encryptedProposals open_dao 1) \<le> 604800"
    by (simp_all add: open_dao_proposal)
  from u have u': "(5::uint256) = 0 \<or> proposalCount open_dao < 5 \<or>
      endTime (encryptedProposals open_dao 5) \<le> 3" by simp
  from c have c': "(1::uint256) = 0 \<or> proposalCount open_dao < 1 \<or>
      endTime (encryptedProposals open_dao 1) \<le> 604800" by simp
  from castEncryptedVote_closed [OF r u', of "Euint32 1" 7]
    castEncryptedVote_closed [OF r c', of "Euint32 1" 7] r u c
  show ?thesis by simp
qed

text \<open>
  A vote on proposal 5 of the contract just deployed fails with \<open>VotingClosed\<close>,
  not with \<open>ProposalNotFound\<close>: a proposal that does not exist reads
  \<open>endTime = 0\<close>.
\<close>

theorem unknown_proposal_counterexample:
  "proposalCount deployed < 5 \<and>
   castEncryptedVote 5 (Euint32 1) 7 0 deployed = Inl VotingClosed \<and>
   castEncryptedVote 5 (Euint32 1) 7 0 deployed \<noteq> Inl ProposalNotFound"
  by (simp add: contract_defs example_defs)

subsection \<open>Creating a proposal\<close>

text \<open>
  A transaction adds at most one to \<open>proposalCount\<close>, so the counter is at most the
  number of transactions since deployment.
\<close>

lemma apply_tx_proposalCount_step:
  "unat (proposalCount (apply_tx be t s)) \<le> unat (proposalCount s) + 1"
proof (cases t)
  case (fields sender now c)
  show ?thesis
  proof (cases c)
    case (CreateEncryptedProposal ti de)
    then show ?thesis using fields
      by (auto simp: apply_tx_def dest!: createEncryptedProposal_count split: sum.splits)
  qed (use fields in \<open>auto simp: apply_tx_def castEncryptedVote_Inr
        requestVoteTallyDecryption_def decryptVoteTally_def depositTokens_def
        withdrawTokens_def Let_def split: sum.splits if_splits option.splits\<close>)
qed

lemma run_proposalCount_bound:
  "unat (proposalCount (run be txs s)) \<le> unat (proposalCount s) + length txs"
proof (induction txs arbitrary: s)
  case Nil
  show ?case by simp
next
  case (Cons t txs)
  have "unat (proposalCount (run be txs (apply_tx be t s))) \<le>
          unat (proposalCount (apply_tx be t s)) + length txs"
    by (rule Cons.IH)
  also have "\<dots> \<le> (unat (proposalCount s) + 1) + length txs"
    using apply_tx_proposalCount_step [of be t s] by simp
  finally show ?case by simp
qed

lemma deployed_proposalCount_bound:
  "unat (proposalCount (run be txs deployed)) \<le> length txs"
  using run_proposalCount_bound [of be txs deployed] by (simp add: deployed_def)

text \<open>
  C8. In every state that fewer than \<open>2 ^ 256 - 1\<close> transactions reach from
  deployment, and at every timestamp to which \<open>VOTING_PERIOD\<close> can be added in
  \<^verbatim>\<open>uint256\<close>, \<open>createEncryptedProposal\<close> succeeds: the new id is
  \<open>proposalCount + 1\<close>, both accumulators are the encryption of 0, \<open>endTime\<close> is
  the timestamp plus \<open>VOTING_PERIOD\<close>, and every proposal created later, after any
  transactions, gets a greater id and leaves this one in place.
\<close>

theorem createEncryptedProposal_next_id:
  assumes reach: "s = run be txs deployed"
    and len: "length txs < 2 ^ 256 - 1"
    and clock: "unat now + unat VOTING_PERIOD < 2 ^ 256"
  shows "createEncryptedProposal title details now s =
           Inr (s\<lparr>proposalCount := proposalCount s + 1,
                  encryptedProposals := (encryptedProposals s)(proposalCount s + 1 :=
                    \<lparr>proposal_id = proposalCount s + 1, encryptedTitle = title,
                     encryptedDetails = details, encryptedVoteCount = FHE_asEuint32 0,
                     encryptedCostSum = FHE_asEuint32 0, endTime = now + VOTING_PERIOD\<rparr>),
                  events := events s @
                    [ProposalCreated (proposalCount s + 1) (now + VOTING_PERIOD)]\<rparr>) \<and>
         unat (proposalCount s + 1) = unat (proposalCount s) + 1 \<and>
         plain (FHE_asEuint32 0) = 0 \<and>
         unat (now + VOTING_PERIOD) = unat now + unat VOTING_PERIOD \<and>
         (\<forall>be' txs' title' details' now' s1 s2.
            createEncryptedProposal title details now s = Inr s1 \<longrightarrow>
            createEncryptedProposal title' details' now' (run be' txs' s1) = Inr s2 \<longrightarrow>
              unat (proposalCount s1) < unat (proposalCount s2) \<and>
              encryptedProposals s2 (proposalCount s1) =
                encryptedProposals (run be' txs' s1) (proposalCount s1))"
proof (intro conjI allI impI)
  have "unat (proposalCount s) \<le> length txs"
    unfolding reach by (rule deployed_proposalCount_bound)
  with len have counter: "unat (proposalCount s) + 1 < 2 ^ 256"
    by simp
  from counter clock show "createEncryptedProposal title details now s =
           Inr (s\<lparr>proposalCount := proposalCount s + 1,
                  encryptedProposals := (encryptedProposals s)(proposalCount s + 1 :=
                    \<lparr>proposal_id = proposalCount s + 1, encryptedTitle = title,
                     encryptedDetails = details, encryptedVoteCount = FHE_asEuint32 0,
                     encryptedCostSum = FHE_asEuint32 0, endTime = now + VOTING_PERIOD\<rparr>),
                  events := events s @
                    [ProposalCreated (proposalCount s + 1) (now + VOTING_PERIOD)]\<rparr>)"
    by (simp add: createEncryptedProposal_cases FHE_asEuint32_def)
  from counter show "unat (proposalCount s + 1) = unat (proposalCount s) + 1"
    by (simp add: unat_word_ariths)
  show "plain (FHE_asEuint32 0) = 0"
    by (simp add: FHE_asEuint32_def)
  from clock show "unat (now + VOTING_PERIOD) = unat now + unat VOTING_PERIOD"
    by (simp add: unat_word_ariths)
next
  fix be' txs' title' details' now' s1 s2
  assume later: "createEncryptedProposal title' details' now' (run be' txs' s1) = Inr s2"
  have "unat (proposalCount s1) \<le> unat (proposalCount (run be' txs' s1))"
    by (rule run_proposalCount)
  also have "\<dots> < unat (proposalCount s2)"
    using createEncryptedProposal_count [OF later] by simp
  finally show "unat (proposalCount s1) < unat (proposalCount s2)" .
  then have "proposalCount s1 \<noteq> proposalCount s2" by auto
  then show "encryptedProposals s2 (proposalCount s1) =
      encryptedProposals (run be' txs' s1) (proposalCount s1)"
    by (rule createEncryptedProposal_others [OF later])
qed

text \<open>
  Account 1 creates proposal 1 on the contract just deployed; after a vote, account
  2 creates proposal 2.
\<close>

theorem createEncryptedProposal_next_id_witness:
  "deployed = run test_backend [] deployed \<and>
   length ([] :: tx list) < 2 ^ 256 - 1 \<and>
   unat (0 :: uint256) + unat VOTING_PERIOD < 2 ^ 256 \<and>
   createEncryptedProposal (Euint32 11) (Euint32 22) 0 deployed = Inr open_dao \<and>
   proposalCount open_dao = 1 \<and>
   plain (encryptedVoteCount (encryptedProposals open_dao 1)) = 0 \<and>
   plain (encryptedCostSum (encryptedProposals open_dao 1)) = 0 \<and>
   endTime (encryptedProposals open_dao 1) = 0 + VOTING_PERIOD \<and>
   createEncryptedProposal (Euint32 33) (Euint32 44) 50
     (run test_backend [(7, 10, CastEncryptedVote 1 (Euint32 3))] open_dao) = Inr two_proposals \<and>
   unat (proposalCount open_dao) < unat (proposalCount two_proposals) \<and>
   encryptedProposals two_proposals (proposalCount open_dao) =
     encryptedProposals (run test_backend [(7, 10, CastEncryptedVote 1 (Euint32 3))] open_dao)
       (proposalCount open_dao)"
proof -
  have r: "deployed = run test_backend [] deployed"
    by simp
  have l: "length ([] :: tx list) < 2 ^ 256 - 1"
    by simp
  have k: "unat (0 :: uint256) + unat VOTING_PERIOD < 2 ^ 256"
    by (simp add: VOTING_PERIOD_def)
  have c1: "createEncryptedProposal (Euint32 11) (Euint32 22) 0 deployed = Inr open_dao"
    by (simp add: contract_defs example_defs)
  have c2: "createEncryptedProposal (Euint32 33) (Euint32 44) 50
     (run test_backend [(7, 10, CastEncryptedVote 1 (Euint32 3))] open_dao) = Inr two_proposals"
    by (simp add: contract_defs example_defs)
  have o: "proposalCount open_dao = 1"
    "plain (encryptedVoteCount (encryptedProposals open_dao 1)) = 0"
    "plain (encryptedCostSum (encryptedProposals open_dao 1)) = 0"
    "endTime (encryptedProposals open_dao 1) = 0 + VOTING_PERIOD"
    by (simp_all add: open_dao_proposal VOTING_PERIOD_def)
  note t = createEncryptedProposal_next_id [OF r l k, of "Euint32 11" "Euint32 22"]
  from t c1 c2 have
    "unat (proposalCount open_dao) < unat (proposalCount two_proposals) \<and>
     encryptedProposals two_proposals (proposalCount open_dao) =
       encryptedProposals (run test_backend [(7, 10, CastEncryptedVote 1 (Euint32 3))] open_dao)
         (proposalCount open_dao)"
    by blast
  with r l k c1 c2 o show ?thesis by blast
qed

subsection \<open>Deposits\<close>

text \<open>
  C9. A deposit of an amount greater than 0 adds exactly that amount to the
  sender's balance; it fails only where the sum does not fit \<^verbatim>\<open>uint256\<close>,
  with \<open>Overflow\<close>, and then the balance is as before.
\<close>

theorem depositTokens_adds:
  assumes "0 < msg_value"
  shows "depositTokens msg_value sender s =
           (if unat (memberTokenBalances s sender) + unat msg_value < 2 ^ 256
            then Inr (s\<lparr>memberTokenBalances := (memberTokenBalances s)
                          (sender := memberTokenBalances s sender + msg_value)\<rparr>)
            else Inl Overflow) \<and>
         (case depositTokens msg_value sender s of
            Inl e \<Rightarrow> e = Overflow \<and> apply_tx be (sender, now, DepositTokens msg_value) s = s
          | Inr s' \<Rightarrow>
              unat (memberTokenBalances s' sender) =
                unat (memberTokenBalances s sender) + unat msg_value)"
  by (simp add: depositTokens_def checked_add_def apply_tx_def unat_word_ariths)

theorem depositTokens_adds_witness:
  "(0::uint256) < 100 \<and>
   depositTokens 100 7 open_dao = Inr funded_dao \<and>
   unat (memberTokenBalances funded_dao 7) = unat (memberTokenBalances open_dao 7) + 100"
proof -
  have p: "(0::uint256) < 100" by simp
  have f: "depositTokens 100 7 open_dao = Inr funded_dao"
    by (simp add: contract_defs example_defs)
  from depositTokens_adds [OF p, of 7 open_dao test_backend 5] p f
  show ?thesis by simp
qed

subsection \<open>What a vote leaves alone\<close>

text \<open>
  C10. A successful vote of member \<open>m\<close> on proposal \<open>p\<close> changes, in the
  storage, only the two accumulators of \<open>p\<close> and the vote record of \<open>(p, m)\<close>:
  \<open>proposalCount\<close>, every balance, every other proposal, every other vote record
  and the other fields of \<open>p\<close> are as before.
\<close>

theorem castEncryptedVote_frame:
  assumes "castEncryptedVote p ev m now s = Inr s'"
  shows "proposalCount s' = proposalCount s \<and>
         memberTokenBalances s' = memberTokenBalances s \<and>
         decryptionRequests s' = decryptionRequests s \<and>
         (\<forall>q. q \<noteq> p \<longrightarrow> encryptedProposals s' q = encryptedProposals s q) \<and>
         (\<forall>q a. q \<noteq> p \<or> a \<noteq> m \<longrightarrow> memberVotes s' q a = memberVotes s q a) \<and>
         proposal_id (encryptedProposals s' p) = proposal_id (encryptedProposals s p) \<and>
         encryptedTitle (encryptedProposals s' p) = encryptedTitle (encryptedProposals s p) \<and>
         encryptedDetails (encryptedProposals s' p) = encryptedDetails (encryptedProposals s p) \<and>
         endTime (encryptedProposals s' p) = endTime (encryptedProposals s p)"
  using assms by (simp add: castEncryptedVote_Inr)

theorem castEncryptedVote_frame_witness:
  "castEncryptedVote 1 (Euint32 3) 7 10 open_dao = Inr voted_dao \<and>
   proposalCount voted_dao = proposalCount open_dao \<and>
   memberTokenBalances voted_dao = memberTokenBalances open_dao \<and>
   encryptedProposals voted_dao 2 = encryptedProposals open_dao 2 \<and>
   memberVotes voted_dao 1 8 = memberVotes open_dao 1 8 \<and>
   memberVotes voted_dao 2 7 = memberVotes open_dao 2 7 \<and>
   endTime (encryptedProposals voted_dao 1) = endTime (encryptedProposals open_dao 1)"
proof -
  have h: "castEncryptedVote 1 (Euint32 3) 7 10 open_dao = Inr voted_dao"
    by (simp add: contract_defs example_defs)
  from castEncryptedVote_frame [OF h] h show ?thesis by simp
qed

end
